theory Spec2Isabelle
  imports Main
begin

section \<open>Python values, arguments and exceptions\<close>

text \<open>
  The module \<^verbatim>\<open>src/diart/models.py\<close> defines two adapter classes around models of
  an external library. A keyword parameter with a default that the caller may leave out
  is an \<open>'a kwarg\<close>; \<open>default_arg\<close> is Python's binding of such a parameter.
\<close>

datatype 'a kwarg = Omitted | Passed 'a

definition default_arg :: "'a \<Rightarrow> 'a kwarg \<Rightarrow> 'a" where
  "default_arg d k = (case k of Omitted \<Rightarrow> d | Passed v \<Rightarrow> v)"

text \<open>
  The credential \<^verbatim>\<open>use_auth_token\<close>: \<^verbatim>\<open>None\<close>, \<^verbatim>\<open>True\<close>/\<^verbatim>\<open>False\<close>, or a string.
\<close>

datatype auth_token = TokenNone | TokenBool bool | TokenText string

text \<open>
  The exceptions a call of this module can end with. \<open>AssertionError\<close> is raised by the
  \<^verbatim>\<open>assert\<close> statements (executed, as in the interpreter's default mode),
  \<open>NotImplementedError\<close> by the bodies of the base classes, \<open>NameError\<close> by a read of
  the module global \<^verbatim>\<open>pyannote\<close> when it is unbound, and \<open>Raised x\<close> is an exception
  \<open>x\<close> of the external library that passes through a frame of this module.
\<close>

datatype 'x error =
    AssertionError string
  | NotImplementedError
  | NameError string
  | Raised 'x

section \<open>The external library\<close>

text \<open>
  Nothing of pyannote or torch is part of the module: a loaded model is a value with the
  two metadata attributes the module reads, \<^verbatim>\<open>audio.sample_rate\<close> and
  \<^verbatim>\<open>specifications.duration\<close>, and its call. The call takes the waveform, the keyword
  \<^verbatim>\<open>weights\<close> (left out, or passed with a tensor or \<^verbatim>\<open>None\<close>) and the state \<open>'e\<close> of
  everything outside the adapters (the weights and buffers of the networks, the memory of
  the tensors, the hub and the network); it returns a tensor or raises, and leaves a new
  outside state. Tensors are of an arbitrary type \<open>'t\<close>, floats of an arbitrary type \<open>'f\<close>.
\<close>

record Audio =
  sample_rate :: int

record 'f Specifications =
  duration :: 'f

record ('f, 't, 'x, 'e) Model =
  audio :: Audio
  specifications :: "'f Specifications"
  model_call :: "'t \<Rightarrow> 't option kwarg \<Rightarrow> 'e \<Rightarrow> ('x + 't) \<times> 'e"

text \<open>
  The module \<^verbatim>\<open>pyannote.audio.pipelines.utils\<close>, of which the code uses \<^verbatim>\<open>get_model\<close>.
\<close>

record ('i, 'f, 't, 'x, 'e) pyannote_utils =
  get_model :: "'i \<Rightarrow> auth_token \<Rightarrow> 'e \<Rightarrow> ('x + ('f, 't, 'x, 'e) Model) \<times> 'e"

section \<open>Module globals\<close>

text \<open>
  Lines 6 to 10: the import is tried once, when the module is loaded. It binds the
  global \<^verbatim>\<open>pyannote\<close> and sets \<^verbatim>\<open>_has_pyannote\<close>; on \<^verbatim>\<open>ImportError\<close> the flag is
  \<^verbatim>\<open>False\<close> and \<^verbatim>\<open>pyannote\<close> stays unbound. The argument of \<open>import_module\<close> is the
  library as installed, \<open>None\<close> when it is not.
\<close>

record ('i, 'f, 't, 'x, 'e) globals =
  has_pyannote :: bool
  pyannote :: "('i, 'f, 't, 'x, 'e) pyannote_utils option"

definition import_module ::
  "('i, 'f, 't, 'x, 'e) pyannote_utils option \<Rightarrow> ('i, 'f, 't, 'x, 'e) globals" where
  "import_module installed =
     (case installed of
        Some lib \<Rightarrow> \<lparr>has_pyannote = True, pyannote = Some lib\<rparr>
      | None \<Rightarrow> \<lparr>has_pyannote = False, pyannote = None\<rparr>)"

section \<open>The adapter classes\<close>

text \<open>
  An object of class \<^verbatim>\<open>SegmentationModel\<close> is an instance of the base class itself or
  of the inner class \<^verbatim>\<open>PyannoteSegmentationModel\<close>, whose attribute \<^verbatim>\<open>model\<close> is the
  constructor's argument. The same for \<^verbatim>\<open>EmbeddingModel\<close>.
\<close>

datatype ('f, 't, 'x, 'e) segmentation_model =
    SegmentationModel
  | PyannoteSegmentationModel "('f, 't, 'x, 'e) Model"

datatype ('f, 't, 'x, 'e) embedding_model =
    EmbeddingModel
  | PyannoteEmbeddingModel "('f, 't, 'x, 'e) Model"

text \<open>
  A method runs on the object \<open>self\<close> and the outside state \<open>world\<close>, and returns its
  result with both as it leaves them.
\<close>

record ('a, 'e) state =
  self :: 'a
  world :: 'e

subsection \<open>SegmentationModel\<close>

text \<open>
  \<^verbatim>\<open>PyannoteSegmentationModel.__init__\<close> (lines 38 to 40): the attribute is what
  \<^verbatim>\<open>pyannote.get_model(pyannote_model, use_auth_token)\<close> returns; an exception of
  \<^verbatim>\<open>get_model\<close> leaves \<^verbatim>\<open>__init__\<close>, and no object is returned.
\<close>

definition PyannoteSegmentationModel_init ::
  "('i, 'f, 't, 'x, 'e) globals \<Rightarrow> 'i \<Rightarrow> auth_token \<Rightarrow> 'e
     \<Rightarrow> ('x error + ('f, 't, 'x, 'e) segmentation_model) \<times> 'e" where
  "PyannoteSegmentationModel_init g pyannote_model use_auth_token e =
     (case pyannote g of
        None \<Rightarrow> (Inl (NameError ''pyannote''), e)
      | Some lib \<Rightarrow>
          (case get_model lib pyannote_model use_auth_token e of
             (Inl x, e') \<Rightarrow> (Inl (Raised x), e')
           | (Inr m, e') \<Rightarrow> (Inr (PyannoteSegmentationModel m), e')))"

text \<open>\<^verbatim>\<open>SegmentationModel.from_pyannote\<close> (lines 19 to 51).\<close>

definition seg_from_pyannote ::
  "('i, 'f, 't, 'x, 'e) globals \<Rightarrow> 'i \<Rightarrow> auth_token kwarg \<Rightarrow> 'e
     \<Rightarrow> ('x error + ('f, 't, 'x, 'e) segmentation_model) \<times> 'e" where
  "seg_from_pyannote g model tok e =
     (let use_auth_token = default_arg TokenNone tok in
      if \<not> has_pyannote g
      then (Inl (AssertionError ''No pyannote.audio installation found''), e)
      else PyannoteSegmentationModel_init g model use_auth_token e)"

text \<open>\<^verbatim>\<open>get_sample_rate\<close>: lines 42 to 43 in the inner class, 53 to 55 in the base.\<close>

definition seg_get_sample_rate ::
  "(('f, 't, 'x, 'e) segmentation_model, 'e) state
     \<Rightarrow> ('x error + int) \<times> (('f, 't, 'x, 'e) segmentation_model, 'e) state" where
  "seg_get_sample_rate s =
     (case self s of
        SegmentationModel \<Rightarrow> (Inl NotImplementedError, s)
      | PyannoteSegmentationModel m \<Rightarrow> (Inr (sample_rate (audio m)), s))"

text \<open>\<^verbatim>\<open>get_duration\<close>: lines 45 to 46 in the inner class, 57 to 59 in the base.\<close>

definition seg_get_duration ::
  "(('f, 't, 'x, 'e) segmentation_model, 'e) state
     \<Rightarrow> ('x error + 'f) \<times> (('f, 't, 'x, 'e) segmentation_model, 'e) state" where
  "seg_get_duration s =
     (case self s of
        SegmentationModel \<Rightarrow> (Inl NotImplementedError, s)
      | PyannoteSegmentationModel m \<Rightarrow> (Inr (duration (specifications m)), s))"

text \<open>
  \<^verbatim>\<open>__call__\<close>: lines 48 to 49 in the inner class, \<^verbatim>\<open>self.model(waveform)\<close> with no
  keyword; lines 61 to 73 in the base.
\<close>

definition seg_call ::
  "'t \<Rightarrow> (('f, 't, 'x, 'e) segmentation_model, 'e) state
     \<Rightarrow> ('x error + 't) \<times> (('f, 't, 'x, 'e) segmentation_model, 'e) state" where
  "seg_call waveform s =
     (case self s of
        SegmentationModel \<Rightarrow> (Inl NotImplementedError, s)
      | PyannoteSegmentationModel m \<Rightarrow>
          (case model_call m waveform Omitted (world s) of
             (Inl x, e') \<Rightarrow> (Inl (Raised x), s\<lparr>world := e'\<rparr>)
           | (Inr y, e') \<Rightarrow> (Inr y, s\<lparr>world := e'\<rparr>)))"

subsection \<open>EmbeddingModel\<close>

text \<open>\<^verbatim>\<open>PyannoteEmbeddingModel.__init__\<close> (lines 99 to 101).\<close>

definition PyannoteEmbeddingModel_init ::
  "('i, 'f, 't, 'x, 'e) globals \<Rightarrow> 'i \<Rightarrow> auth_token \<Rightarrow> 'e
     \<Rightarrow> ('x error + ('f, 't, 'x, 'e) embedding_model) \<times> 'e" where
  "PyannoteEmbeddingModel_init g pyannote_model use_auth_token e =
     (case pyannote g of
        None \<Rightarrow> (Inl (NameError ''pyannote''), e)
      | Some lib \<Rightarrow>
          (case get_model lib pyannote_model use_auth_token e of
             (Inl x, e') \<Rightarrow> (Inl (Raised x), e')
           | (Inr m, e') \<Rightarrow> (Inr (PyannoteEmbeddingModel m), e')))"

text \<open>\<^verbatim>\<open>EmbeddingModel.from_pyannote\<close> (lines 80 to 110).\<close>

definition emb_from_pyannote ::
  "('i, 'f, 't, 'x, 'e) globals \<Rightarrow> 'i \<Rightarrow> auth_token kwarg \<Rightarrow> 'e
     \<Rightarrow> ('x error + ('f, 't, 'x, 'e) embedding_model) \<times> 'e" where
  "emb_from_pyannote g model tok e =
     (let use_auth_token = default_arg TokenNone tok in
      if \<not> has_pyannote g
      then (Inl (AssertionError ''No pyannote.audio installation found''), e)
      else PyannoteEmbeddingModel_init g model use_auth_token e)"

text \<open>
  \<^verbatim>\<open>__call__\<close>: lines 103 to 108 in the inner class, where the parameter \<^verbatim>\<open>weights\<close>
  defaults to \<^verbatim>\<open>None\<close> and the wrapped model is called with the keyword
  \<^verbatim>\<open>weights=weights\<close>; lines 112 to 130 in the base, with the same parameters.
\<close>

definition emb_call ::
  "'t \<Rightarrow> 't option kwarg \<Rightarrow> (('f, 't, 'x, 'e) embedding_model, 'e) state
     \<Rightarrow> ('x error + 't) \<times> (('f, 't, 'x, 'e) embedding_model, 'e) state" where
  "emb_call waveform wts s =
     (let weights = default_arg None wts in
      case self s of
        EmbeddingModel \<Rightarrow> (Inl NotImplementedError, s)
      | PyannoteEmbeddingModel m \<Rightarrow>
          (case model_call m waveform (Passed weights) (world s) of
             (Inl x, e') \<Rightarrow> (Inl (Raised x), s\<lparr>world := e'\<rparr>)
           | (Inr y, e') \<Rightarrow> (Inr y, s\<lparr>world := e'\<rparr>)))"

subsection \<open>Sequences of operations on one adapter\<close>







section \<open>A concrete library, for closed instances\<close>

text \<open>
  A small library to evaluate the definitions on. Tensors are lists of integers,
  exceptions are their messages, and the outside state is the list of the calls the
  library has received, in order. The hub knows one identifier; the model it returns
  rejects an empty waveform and doubles the other ones.
\<close>

datatype call_event =
    HubLookup string auth_token
  | Forward "int list" "int list option kwarg"

definition demo_model :: "(int, int list, string, call_event list) Model" where
  "demo_model =
     \<lparr>audio = \<lparr>sample_rate = 16000\<rparr>,
      specifications = \<lparr>duration = 5\<rparr>,
      model_call = (\<lambda>w k e.
        (if w = [] then Inl ''shape mismatch'' else Inr (map (\<lambda>v. 2 * v) w),
         e @ [Forward w k]))\<rparr>"

definition demo_utils :: "(string, int, int list, string, call_event list) pyannote_utils" where
  "demo_utils =
     \<lparr>get_model = (\<lambda>i t e.
        (if i = ''pyannote/segmentation'' then Inr demo_model else Inl ''unknown model'',
         e @ [HubLookup i t]))\<rparr>"






section \<open>Facts about the definitions\<close>

lemma import_module_flag:
  "has_pyannote (import_module installed) = (installed \<noteq> None)"
  "pyannote (import_module installed) = installed"
  by (simp_all add: import_module_def split: option.split)














text \<open>
  An adapter comes out of \<open>seg_from_pyannote\<close> only along one path: the flag is set, the
  global is bound, and \<^verbatim>\<open>get_model\<close> returned the model the adapter holds.
\<close>

lemma seg_from_pyannote_Inr:
  assumes "seg_from_pyannote g model tok e = (Inr a, e')"
  shows "\<exists>lib m. has_pyannote g \<and> pyannote g = Some lib
           \<and> get_model lib model (default_arg TokenNone tok) e = (Inr m, e')
           \<and> a = PyannoteSegmentationModel m"
  using assms
  by (auto simp: seg_from_pyannote_def PyannoteSegmentationModel_init_def Let_def
      split: if_splits option.splits prod.splits sum.splits)

subsection \<open>The concrete library\<close>

lemma demo_globals:
  "has_pyannote (import_module (Some demo_utils))"
  "pyannote (import_module (Some demo_utils)) = Some demo_utils"
  by (simp_all add: import_module_def)

lemma demo_get_model:
  "get_model demo_utils i t e =
     (if i = ''pyannote/segmentation'' then Inr demo_model else Inl ''unknown model'',
      e @ [HubLookup i t])"
  by (simp add: demo_utils_def)

lemma demo_seg_construct:
  "seg_from_pyannote (import_module (Some demo_utils)) ''pyannote/segmentation'' Omitted []
     = (Inr (PyannoteSegmentationModel demo_model),
        [HubLookup ''pyannote/segmentation'' TokenNone])"
  by (simp add: seg_from_pyannote_def PyannoteSegmentationModel_init_def import_module_def
      demo_utils_def default_arg_def)



section \<open>The claims\<close>

text \<open>
  C1. Whenever \<^verbatim>\<open>SegmentationModel.from_pyannote\<close> returns an adapter, the hub client
  returned a model \<open>m\<close> for the identifier and the credential given, and on that adapter,
  in any outside state, \<^verbatim>\<open>get_sample_rate()\<close> returns exactly \<open>m\<close>'s
  \<^verbatim>\<open>audio.sample_rate\<close> and \<^verbatim>\<open>get_duration()\<close> exactly \<open>m\<close>'s
  \<^verbatim>\<open>specifications.duration\<close>; neither changes the adapter or the outside state.
\<close>

theorem from_pyannote_metadata:
  assumes "seg_from_pyannote g model tok e = (Inr a, e')"
  shows "\<exists>lib m. pyannote g = Some lib
           \<and> get_model lib model (default_arg TokenNone tok) e = (Inr m, e')
           \<and> seg_get_sample_rate \<lparr>self = a, world = e1\<rparr>
               = (Inr (sample_rate (audio m)), \<lparr>self = a, world = e1\<rparr>)
           \<and> seg_get_duration \<lparr>self = a, world = e1\<rparr>
               = (Inr (duration (specifications m)), \<lparr>self = a, world = e1\<rparr>)"
proof -
  from seg_from_pyannote_Inr [OF assms] obtain lib m where
    h: "pyannote g = Some lib"
      "get_model lib model (default_arg TokenNone tok) e = (Inr m, e')"
      "a = PyannoteSegmentationModel m"
    by blast
  have "seg_get_sample_rate \<lparr>self = a, world = e1\<rparr>
          = (Inr (sample_rate (audio m)), \<lparr>self = a, world = e1\<rparr>)"
    using h(3) by (simp add: seg_get_sample_rate_def)
  moreover have "seg_get_duration \<lparr>self = a, world = e1\<rparr>
          = (Inr (duration (specifications m)), \<lparr>self = a, world = e1\<rparr>)"
    using h(3) by (simp add: seg_get_duration_def)
  ultimately show ?thesis using h(1,2) by blast
qed

text \<open>On the concrete library: the adapter built there reports 16000 Hz and 5 s.\<close>

theorem from_pyannote_metadata_witness:
  "seg_from_pyannote (import_module (Some demo_utils)) ''pyannote/segmentation'' Omitted []
     = (Inr (PyannoteSegmentationModel demo_model),
        [HubLookup ''pyannote/segmentation'' TokenNone])
   \<and> seg_get_sample_rate \<lparr>self = PyannoteSegmentationModel demo_model, world = []\<rparr>
     = (Inr 16000, \<lparr>self = PyannoteSegmentationModel demo_model, world = []\<rparr>)
   \<and> seg_get_duration \<lparr>self = PyannoteSegmentationModel demo_model, world = []\<rparr>
     = (Inr 5, \<lparr>self = PyannoteSegmentationModel demo_model, world = []\<rparr>)"
proof -
  from from_pyannote_metadata [OF demo_seg_construct, of "[]"] obtain lib m where
    h: "pyannote (import_module (Some demo_utils)) = Some lib"
      "get_model lib ''pyannote/segmentation'' (default_arg TokenNone Omitted) []
         = (Inr m, [HubLookup ''pyannote/segmentation'' TokenNone])"
      "seg_get_sample_rate \<lparr>self = PyannoteSegmentationModel demo_model, world = []\<rparr>
         = (Inr (sample_rate (audio m)),
            \<lparr>self = PyannoteSegmentationModel demo_model, world = []\<rparr>)"
      "seg_get_duration \<lparr>self = PyannoteSegmentationModel demo_model, world = []\<rparr>
         = (Inr (duration (specifications m)),
            \<lparr>self = PyannoteSegmentationModel demo_model, world = []\<rparr>)"
    by blast
  from h(1) have lib: "lib = demo_utils" by (simp add: demo_globals)
  from h(2) have m: "m = demo_model" by (simp add: lib demo_get_model)
  from h(3,4) show ?thesis
    by (simp add: m demo_seg_construct) (simp add: demo_model_def)
qed

text \<open>
  C2. When the flag \<^verbatim>\<open>_has_pyannote\<close> is false (the hub client library is absent), a
  call of either named constructor, with any identifier and any credential, ends at once
  with the assertion's error (the spec's \<^verbatim>\<open>MissingDependency\<close>) and leaves the outside
  state as it found it: no hub lookup was made, and no adapter exists on which a forward
  call could find the library missing later.
\<close>

theorem from_pyannote_missing_dependency:
  assumes "\<not> has_pyannote g"
  shows "seg_from_pyannote g model tok e
           = (Inl (AssertionError ''No pyannote.audio installation found''), e)
       \<and> emb_from_pyannote g model tok e
           = (Inl (AssertionError ''No pyannote.audio installation found''), e)"
  using assms by (simp add: seg_from_pyannote_def emb_from_pyannote_def)

text \<open>
  On the module loaded without the library, and on globals where the flag is false
  although a client is bound: the log of hub lookups stays empty.
\<close>

theorem from_pyannote_missing_dependency_witness:
  "\<not> has_pyannote (import_module None
       :: (string, int, int list, string, call_event list) globals)
   \<and> seg_from_pyannote (import_module None
       :: (string, int, int list, string, call_event list) globals)
       ''pyannote/segmentation'' (Passed (TokenBool True)) []
       = (Inl (AssertionError ''No pyannote.audio installation found''), [])
   \<and> emb_from_pyannote (import_module None
       :: (string, int, int list, string, call_event list) globals)
       ''pyannote/segmentation'' (Passed (TokenBool True)) []
       = (Inl (AssertionError ''No pyannote.audio installation found''), [])
   \<and> seg_from_pyannote \<lparr>has_pyannote = False, pyannote = Some demo_utils\<rparr>
       ''pyannote/segmentation'' Omitted []
       = (Inl (AssertionError ''No pyannote.audio installation found''), [])"
proof -
  have a: "\<not> has_pyannote (import_module None
       :: (string, int, int list, string, call_event list) globals)"
    by (simp add: import_module_def)
  have b: "\<not> has_pyannote \<lparr>has_pyannote = False, pyannote = Some demo_utils\<rparr>"
    by simp
  show ?thesis
    using a
      from_pyannote_missing_dependency
        [OF a, of "''pyannote/segmentation''" "Passed (TokenBool True)" "[]"]
      from_pyannote_missing_dependency
        [OF b, of "''pyannote/segmentation''" Omitted "[]"]
    by simp
qed

text \<open>
  C3. On an instance of the base class \<^verbatim>\<open>SegmentationModel\<close>, \<^verbatim>\<open>get_sample_rate\<close>,
  \<^verbatim>\<open>get_duration\<close> and the forward call fail with \<^verbatim>\<open>NotImplementedError\<close> (the spec's
  \<^verbatim>\<open>UnsupportedOperation\<close>) for every input and in every outside state, and so does the
  forward call on an instance of the base class \<^verbatim>\<open>EmbeddingModel\<close>, with or without
  weights: the base classes have no default behaviour, and the failing call changes
  nothing.
\<close>

theorem base_class_not_implemented:
  "seg_get_sample_rate \<lparr>self = SegmentationModel, world = e\<rparr>
     = (Inl NotImplementedError, \<lparr>self = SegmentationModel, world = e\<rparr>)
   \<and> seg_get_duration \<lparr>self = SegmentationModel, world = e\<rparr>
     = (Inl NotImplementedError, \<lparr>self = SegmentationModel, world = e\<rparr>)
   \<and> seg_call w \<lparr>self = SegmentationModel, world = e\<rparr>
     = (Inl NotImplementedError, \<lparr>self = SegmentationModel, world = e\<rparr>)
   \<and> emb_call w wts \<lparr>self = EmbeddingModel, world = e\<rparr>
     = (Inl NotImplementedError, \<lparr>self = EmbeddingModel, world = e\<rparr>)"
  by (simp add: seg_get_sample_rate_def seg_get_duration_def seg_call_def emb_call_def)

text \<open>The same on a concrete input and outside state.\<close>

theorem base_class_not_implemented_witness:
  "seg_get_sample_rate \<lparr>self = SegmentationModel, world = [HubLookup ''a'' TokenNone]\<rparr>
     = (Inl (NotImplementedError :: string error),
        \<lparr>self = (SegmentationModel :: (int, int list, string, call_event list) segmentation_model),
         world = [HubLookup ''a'' TokenNone]\<rparr>)
   \<and> seg_get_duration \<lparr>self = SegmentationModel, world = [HubLookup ''a'' TokenNone]\<rparr>
     = (Inl (NotImplementedError :: string error),
        \<lparr>self = (SegmentationModel :: (int, int list, string, call_event list) segmentation_model),
         world = [HubLookup ''a'' TokenNone]\<rparr>)
   \<and> seg_call [1, 2] \<lparr>self = SegmentationModel, world = [HubLookup ''a'' TokenNone]\<rparr>
     = (Inl (NotImplementedError :: string error),
        \<lparr>self = (SegmentationModel :: (int, int list, string, call_event list) segmentation_model),
         world = [HubLookup ''a'' TokenNone]\<rparr>)
   \<and> emb_call [1, 2] (Passed (Some [1]))
       \<lparr>self = EmbeddingModel, world = [HubLookup ''a'' TokenNone]\<rparr>
     = (Inl (NotImplementedError :: string error),
        \<lparr>self = (EmbeddingModel :: (int, int list, string, call_event list) embedding_model),
         world = [HubLookup ''a'' TokenNone]\<rparr>)"
  by (rule base_class_not_implemented)

text \<open>
  C4. With the hub client present, whenever its resolution of the identifier fails
  (\<^verbatim>\<open>get_model\<close> raises \<open>x\<close>: an unknown identifier, a network failure, a rejected
  credential), both named constructors end with that error (the spec's
  \<^verbatim>\<open>HubResolutionError\<close>) and return no adapter, complete or partial.
\<close>

theorem from_pyannote_hub_failure:
  assumes "has_pyannote g" and "pyannote g = Some lib"
    and "get_model lib model (default_arg TokenNone tok) e = (Inl x, e')"
  shows "seg_from_pyannote g model tok e = (Inl (Raised x), e')
       \<and> emb_from_pyannote g model tok e = (Inl (Raised x), e')
       \<and> (\<forall>a. fst (seg_from_pyannote g model tok e) \<noteq> Inr a)
       \<and> (\<forall>a. fst (emb_from_pyannote g model tok e) \<noteq> Inr a)"
  using assms
  by (simp add: seg_from_pyannote_def emb_from_pyannote_def
      PyannoteSegmentationModel_init_def PyannoteEmbeddingModel_init_def)

text \<open>An identifier the concrete hub does not know.\<close>

theorem from_pyannote_hub_failure_witness:
  "get_model demo_utils ''pyannote/unknown''
       (default_arg TokenNone (Passed (TokenText ''hf_token''))) []
     = (Inl ''unknown model'', [HubLookup ''pyannote/unknown'' (TokenText ''hf_token'')])
   \<and> seg_from_pyannote (import_module (Some demo_utils)) ''pyannote/unknown''
       (Passed (TokenText ''hf_token'')) []
     = (Inl (Raised ''unknown model''),
        [HubLookup ''pyannote/unknown'' (TokenText ''hf_token'')])
   \<and> emb_from_pyannote (import_module (Some demo_utils)) ''pyannote/unknown''
       (Passed (TokenText ''hf_token'')) []
     = (Inl (Raised ''unknown model''),
        [HubLookup ''pyannote/unknown'' (TokenText ''hf_token'')])"
proof -
  have h: "get_model demo_utils ''pyannote/unknown''
       (default_arg TokenNone (Passed (TokenText ''hf_token''))) []
     = (Inl ''unknown model'', [HubLookup ''pyannote/unknown'' (TokenText ''hf_token'')])"
    by (simp add: demo_get_model default_arg_def)
  show ?thesis
    using h from_pyannote_hub_failure [OF demo_globals h] by simp
qed







text \<open>
  C7. On a constructed adapter, an error \<open>x\<close> that the wrapped model raises in a forward
  call (a shape mismatch among them) reaches the caller as that same \<open>x\<close>, and the
  outside state is the one that single call of the wrapped model left: the adapter
  neither catches the error, nor calls again, nor puts a result in its place. This holds
  for the segmentation adapter and, with any weights argument, for the embedding adapter.
\<close>

theorem call_error_propagates:
  "(self s = PyannoteSegmentationModel m
      \<and> model_call m w Omitted (world s) = (Inl x, e')
      \<longrightarrow> seg_call w s = (Inl (Raised x), s\<lparr>world := e'\<rparr>))
   \<and> (self t = PyannoteEmbeddingModel m
      \<and> model_call m w (Passed (default_arg None k)) (world t) = (Inl x, e')
      \<longrightarrow> emb_call w k t = (Inl (Raised x), t\<lparr>world := e'\<rparr>))"
  by (simp add: seg_call_def emb_call_def)

text \<open>
  The concrete model rejects an empty waveform: the log holds one call of it, no second.
\<close>

theorem call_error_propagates_witness:
  "model_call demo_model [] Omitted [] = (Inl ''shape mismatch'', [Forward [] Omitted])
   \<and> seg_call [] \<lparr>self = PyannoteSegmentationModel demo_model, world = []\<rparr>
     = (Inl (Raised ''shape mismatch''),
        \<lparr>self = PyannoteSegmentationModel demo_model, world = [Forward [] Omitted]\<rparr>)
   \<and> model_call demo_model [] (Passed (Some [1])) []
     = (Inl ''shape mismatch'', [Forward [] (Passed (Some [1]))])
   \<and> emb_call [] (Passed (Some [1])) \<lparr>self = PyannoteEmbeddingModel demo_model, world = []\<rparr>
     = (Inl (Raised ''shape mismatch''),
        \<lparr>self = PyannoteEmbeddingModel demo_model,
         world = [Forward [] (Passed (Some [1]))]\<rparr>)"
proof -
  have a: "model_call demo_model [] Omitted [] = (Inl ''shape mismatch'', [Forward [] Omitted])"
    by (simp add: demo_model_def)
  have b: "model_call demo_model [] (Passed (Some [1])) []
     = (Inl ''shape mismatch'', [Forward [] (Passed (Some [1]))])"
    by (simp add: demo_model_def)
  show ?thesis
    using a b
      call_error_propagates
        [of "\<lparr>self = PyannoteSegmentationModel demo_model, world = []\<rparr>" demo_model
          "[]" "''shape mismatch''" "[Forward [] Omitted]"
          "\<lparr>self = PyannoteEmbeddingModel demo_model, world = []\<rparr>" "Passed (Some [1])"]
      call_error_propagates
        [of "\<lparr>self = PyannoteSegmentationModel demo_model, world = []\<rparr>" demo_model
          "[]" "''shape mismatch''" "[Forward [] (Passed (Some [1]))]"
          "\<lparr>self = PyannoteEmbeddingModel demo_model, world = []\<rparr>" "Passed (Some [1])"]
    by (simp add: default_arg_def)
qed

text \<open>
  C8. With the hub client present, both named constructors hand the credential to
  \<^verbatim>\<open>get_model\<close> as they received it, whatever it is (\<^verbatim>\<open>None\<close>, a boolean or a string),
  and \<^verbatim>\<open>None\<close> when the caller left it out; the outcome of the constructor is the
  outcome of that one call, the model wrapped or the error passed on. The constructors
  never look at the credential.
\<close>

theorem auth_token_passthrough:
  assumes "has_pyannote g" and "pyannote g = Some lib"
  shows "seg_from_pyannote g model (Passed t) e
           = apfst (map_sum Raised PyannoteSegmentationModel) (get_model lib model t e)
       \<and> seg_from_pyannote g model Omitted e
           = apfst (map_sum Raised PyannoteSegmentationModel) (get_model lib model TokenNone e)
       \<and> emb_from_pyannote g model (Passed t) e
           = apfst (map_sum Raised PyannoteEmbeddingModel) (get_model lib model t e)
       \<and> emb_from_pyannote g model Omitted e
           = apfst (map_sum Raised PyannoteEmbeddingModel) (get_model lib model TokenNone e)"
  using assms
  by (simp add: seg_from_pyannote_def emb_from_pyannote_def default_arg_def
      PyannoteSegmentationModel_init_def PyannoteEmbeddingModel_init_def
      split: prod.split sum.split)

text \<open>The lookups the concrete hub has logged, for a string, no credential and both booleans.\<close>

theorem auth_token_passthrough_witness:
  "snd (seg_from_pyannote (import_module (Some demo_utils)) ''pyannote/segmentation''
          (Passed (TokenText ''hf_token'')) [])
     = [HubLookup ''pyannote/segmentation'' (TokenText ''hf_token'')]
   \<and> snd (seg_from_pyannote (import_module (Some demo_utils)) ''pyannote/segmentation''
          Omitted [])
     = [HubLookup ''pyannote/segmentation'' TokenNone]
   \<and> snd (emb_from_pyannote (import_module (Some demo_utils)) ''pyannote/segmentation''
          (Passed (TokenBool True)) [])
     = [HubLookup ''pyannote/segmentation'' (TokenBool True)]
   \<and> snd (emb_from_pyannote (import_module (Some demo_utils)) ''pyannote/segmentation''
          (Passed (TokenBool False)) [])
     = [HubLookup ''pyannote/segmentation'' (TokenBool False)]"
  using auth_token_passthrough
      [OF demo_globals, of "''pyannote/segmentation''" "TokenText ''hf_token''" "[]"]
    auth_token_passthrough
      [OF demo_globals, of "''pyannote/segmentation''" "TokenBool True" "[]"]
    auth_token_passthrough
      [OF demo_globals, of "''pyannote/segmentation''" "TokenBool False" "[]"]
  by (simp add: demo_get_model)

text \<open>
  C9. On every embedding adapter (an instance of the base class or of the inner class),
  every waveform and every outside state, the forward call with the weights argument
  left out is equal, in its result and in the state it leaves, to the forward call with
  \<^verbatim>\<open>weights=None\<close>: both make the same call of the wrapped model.
\<close>

theorem emb_call_default_weights:
  "emb_call w Omitted s = emb_call w (Passed None) s"
  by (simp add: emb_call_def default_arg_def)

text \<open>Both calls reach the concrete model with the keyword \<^verbatim>\<open>weights=None\<close>.\<close>

theorem emb_call_default_weights_witness:
  "emb_call [1, 2] Omitted \<lparr>self = PyannoteEmbeddingModel demo_model, world = []\<rparr>
     = (Inr [2, 4],
        \<lparr>self = PyannoteEmbeddingModel demo_model, world = [Forward [1, 2] (Passed None)]\<rparr>)
   \<and> emb_call [1, 2] (Passed None) \<lparr>self = PyannoteEmbeddingModel demo_model, world = []\<rparr>
     = (Inr [2, 4],
        \<lparr>self = PyannoteEmbeddingModel demo_model, world = [Forward [1, 2] (Passed None)]\<rparr>)"
proof -
  have "emb_call [1, 2] (Passed None) \<lparr>self = PyannoteEmbeddingModel demo_model, world = []\<rparr>
     = (Inr [2, 4],
        \<lparr>self = PyannoteEmbeddingModel demo_model, world = [Forward [1, 2] (Passed None)]\<rparr>)"
    by (simp add: emb_call_def default_arg_def demo_model_def)
  then show ?thesis
    using emb_call_default_weights
      [of "[1, 2]" "\<lparr>self = PyannoteEmbeddingModel demo_model, world = []\<rparr>"]
    by simp
qed

text \<open>
  C10. Every adapter that \<^verbatim>\<open>SegmentationModel.from_pyannote\<close> returns is an instance of
  the inner class, which overrides all three capabilities: on it, in any outside state
  and for any waveform, none of \<^verbatim>\<open>get_sample_rate\<close>, \<^verbatim>\<open>get_duration\<close> and the forward
  call ends with the base class's \<^verbatim>\<open>NotImplementedError\<close>. (An exception of the wrapped
  model's own arrives as \<open>Raised\<close>, whatever its class.)
\<close>

theorem from_pyannote_overrides_base:
  assumes "seg_from_pyannote g model tok e = (Inr a, e')"
  shows "a \<noteq> SegmentationModel
       \<and> fst (seg_get_sample_rate \<lparr>self = a, world = e1\<rparr>) \<noteq> Inl NotImplementedError
       \<and> fst (seg_get_duration \<lparr>self = a, world = e1\<rparr>) \<noteq> Inl NotImplementedError
       \<and> fst (seg_call w \<lparr>self = a, world = e1\<rparr>) \<noteq> Inl NotImplementedError"
proof -
  from seg_from_pyannote_Inr [OF assms] obtain m where a: "a = PyannoteSegmentationModel m"
    by blast
  show ?thesis
    by (simp add: a seg_get_sample_rate_def seg_get_duration_def seg_call_def
        split: prod.split sum.split)
qed

text \<open>The adapter built on the concrete library, also on the waveform its model rejects.\<close>

theorem from_pyannote_overrides_base_witness:
  "seg_from_pyannote (import_module (Some demo_utils)) ''pyannote/segmentation'' Omitted []
     = (Inr (PyannoteSegmentationModel demo_model),
        [HubLookup ''pyannote/segmentation'' TokenNone])
   \<and> fst (seg_get_sample_rate \<lparr>self = PyannoteSegmentationModel demo_model,
        world = [HubLookup ''pyannote/segmentation'' TokenNone]\<rparr>) \<noteq> Inl NotImplementedError
   \<and> fst (seg_get_duration \<lparr>self = PyannoteSegmentationModel demo_model,
        world = [HubLookup ''pyannote/segmentation'' TokenNone]\<rparr>) \<noteq> Inl NotImplementedError
   \<and> fst (seg_call [] \<lparr>self = PyannoteSegmentationModel demo_model,
        world = [HubLookup ''pyannote/segmentation'' TokenNone]\<rparr>) \<noteq> Inl NotImplementedError"
  using demo_seg_construct
    from_pyannote_overrides_base
      [OF demo_seg_construct, of "[HubLookup ''pyannote/segmentation'' TokenNone]" "[]"]
  by simp

end
